theory Spec2Isabelle
  imports Main
begin

section \<open>The coffee-shop backend: values, rows, errors\<close>

text \<open>
  The request handlers of \<^verbatim>\<open>backend/src/api.py\<close> work on parsed JSON values. A JSON
  object is the Python dict that \<^verbatim>\<open>request.get_json()\<close> returns, kept as an association
  list whose keys are distinct (a dict has each key once); \<open>JNull\<close> is Python's \<open>None\<close>.
  Numbers are integers, as the ids and the parts of a recipe are.
\<close>

datatype json =
    JNull
  | JBool bool
  | JNum int
  | JStr string
  | JArr "json list"
  | JObj "(string \<times> json) list"

text \<open>
  The exceptions that travel through the handlers: Python's own \<open>KeyError\<close> and
  \<open>TypeError\<close>, the exception \<^verbatim>\<open>abort(code)\<close> raises, the \<open>AuthError\<close> of the
  authorization decorator (its error payload and its status code), and an error of the
  persistence layer.
\<close>

datatype exn =
    KeyError string
  | TypeError
  | HTTPException nat
  | AuthError json nat
  | SQLAlchemyError

text \<open>
  A response is either one this application builds (a status and a JSON body), or the
  framework's own answer: its default page for an HTTP error no handler is registered
  for, and status 500 for an exception nobody catches. The body of the framework's answer
  is not JSON of this application.
\<close>

datatype response =
    Response nat json
  | Framework_default nat

fun status :: "response \<Rightarrow> nat" where
  "status (Response s b) = s"
| "status (Framework_default s) = s"

text \<open>
  A row of the drinks table. The handlers store whatever JSON value the request gave as
  the title, and the recipe as the text \<^verbatim>\<open>json.dumps\<close> made of it. The table is the list
  of its rows in the order \<^verbatim>\<open>Drink.query.all()\<close> returns them.
\<close>

record drink =
  drink_id :: int
  title :: json
  recipe :: string

type_synonym table = "drink list"

text \<open>Python's \<^verbatim>\<open>data[key]\<close> with a string key, on the value \<^verbatim>\<open>get_json()\<close> returned.\<close>

fun getitem :: "json \<Rightarrow> string \<Rightarrow> exn + json" where
  "getitem (JObj kvs) k = (case map_of kvs k of None \<Rightarrow> Inl (KeyError k) | Some v \<Rightarrow> Inr v)"
| "getitem JNull k = Inl TypeError"
| "getitem (JBool b) k = Inl TypeError"
| "getitem (JNum n) k = Inl TypeError"
| "getitem (JStr s) k = Inl TypeError"
| "getitem (JArr xs) k = Inl TypeError"

section \<open>The authorization checker\<close>

text \<open>
  Modelled from the spec: the module \<^verbatim>\<open>auth/auth.py\<close> (\<open>AuthError\<close>, \<open>requires_auth\<close>) is
  imported by \<^verbatim>\<open>api.py\<close> and is not among the sources. Section 4.1 of the specification
  gives its contract: the seven failures, their statuses (401 for every authentication
  failure, 403 for insufficient-permission), a machine-readable code and a human
  description for each, and the algorithm (split the header on whitespace, require
  exactly two parts with the first equal to Bearer, validate the token, then look the
  required permission up in the claim's permission set).
\<close>

datatype auth_failure =
    Missing_header
  | Malformed_header
  | Malformed_token
  | Invalid_signature
  | Expired_token
  | Missing_permission_claim
  | Insufficient_permission

text \<open>
  The decoded claim set: an expiry and, when the token carries the claim, the array of
  permission strings.
\<close>

record claims =
  expiry :: nat
  permissions :: "string list option"

text \<open>
  What the application does not define itself is a parameter of the model: the
  validation of a token against the identity provider's keys (signature, expiry,
  audience, issuer), which either fails with one of the three token failures or yields
  the claim set; the human description of a failure; \<^verbatim>\<open>json.dumps\<close>; and the two
  representations \<^verbatim>\<open>Drink.short\<close> and \<^verbatim>\<open>Drink.long\<close>, whose exact field sets the
  specification leaves to the client contract. Each of them is taken to return a value
  on every argument.
\<close>

datatype token_error = Bad_token | Bad_signature | Token_expired

record env =
  verify_token :: "string \<Rightarrow> token_error + claims"
  description :: "auth_failure \<Rightarrow> string"
  dumps :: "json \<Rightarrow> string"
  short :: "drink \<Rightarrow> json"
  long :: "drink \<Rightarrow> json"

fun token_failure :: "token_error \<Rightarrow> auth_failure" where
  "token_failure Bad_token = Malformed_token"
| "token_failure Bad_signature = Invalid_signature"
| "token_failure Token_expired = Expired_token"

text \<open>Modelled from the spec: the status each failure of the checker carries.\<close>

fun status_code :: "auth_failure \<Rightarrow> nat" where
  "status_code Insufficient_permission = 403"
| "status_code Missing_header = 401"
| "status_code Malformed_header = 401"
| "status_code Malformed_token = 401"
| "status_code Invalid_signature = 401"
| "status_code Expired_token = 401"
| "status_code Missing_permission_claim = 401"

text \<open>Modelled from the spec: the machine-readable code of each failure.\<close>

fun code :: "auth_failure \<Rightarrow> string" where
  "code Missing_header = ''missing-header''"
| "code Malformed_header = ''malformed-header''"
| "code Malformed_token = ''malformed-token''"
| "code Invalid_signature = ''invalid-signature''"
| "code Expired_token = ''expired-token''"
| "code Missing_permission_claim = ''missing-permission-claim''"
| "code Insufficient_permission = ''insufficient-permission''"

text \<open>
  Modelled from the spec: the payload of an \<open>AuthError\<close>, a machine-readable code plus a
  human description.
\<close>

definition error_payload :: "env \<Rightarrow> auth_failure \<Rightarrow> json" where
  "error_payload e f =
     JObj [(''code'', JStr (code f)), (''description'', JStr (description e f))]"

text \<open>Modelled from the spec: splitting the header value on whitespace.\<close>

definition is_space :: "char \<Rightarrow> bool" where
  "is_space c = (c \<in> set [CHR '' '', CHR 0x09, CHR 0x0A, CHR 0x0B, CHR 0x0C, CHR 0x0D])"

fun split_acc :: "string \<Rightarrow> string \<Rightarrow> string list" where
  "split_acc w [] = (if w = [] then [] else [w])"
| "split_acc w (c # cs) =
     (if is_space c then (if w = [] then split_acc [] cs else w # split_acc [] cs)
      else split_acc (w @ [c]) cs)"

definition split :: "string \<Rightarrow> string list" where
  "split s = split_acc [] s"

text \<open>
  Modelled from the spec: the header must be present and be exactly \<open>Bearer <token>\<close>.
\<close>

definition get_token_auth_header :: "string option \<Rightarrow> auth_failure + string" where
  "get_token_auth_header h =
     (case h of
        None \<Rightarrow> Inl Missing_header
      | Some v \<Rightarrow>
          (case split v of
             [b, t] \<Rightarrow> if b = ''Bearer'' then Inr t else Inl Malformed_header
           | _ \<Rightarrow> Inl Malformed_header))"

text \<open>Modelled from the spec: the token is validated with the provider's keys.\<close>

definition verify_decode_jwt :: "env \<Rightarrow> string \<Rightarrow> auth_failure + claims" where
  "verify_decode_jwt e tok =
     (case verify_token e tok of Inl te \<Rightarrow> Inl (token_failure te) | Inr c \<Rightarrow> Inr c)"

text \<open>
  Modelled from the spec: the required permission must be a member of the claim's
  permission set; a claim set with no permission array is the failure
  missing-permission-claim.
\<close>

definition check_permissions :: "string \<Rightarrow> claims \<Rightarrow> auth_failure + claims" where
  "check_permissions permission c =
     (case permissions c of
        None \<Rightarrow> Inl Missing_permission_claim
      | Some ps \<Rightarrow> if permission \<in> set ps then Inr c else Inl Insufficient_permission)"

text \<open>
  Modelled from the spec: the checker, from the raw header value and the required
  permission to the decoded claim set or a failure.
\<close>

definition checker :: "env \<Rightarrow> string \<Rightarrow> string option \<Rightarrow> auth_failure + claims" where
  "checker e permission h =
     (case get_token_auth_header h of
        Inl f \<Rightarrow> Inl f
      | Inr tok \<Rightarrow>
          (case verify_decode_jwt e tok of
             Inl f \<Rightarrow> Inl f
           | Inr c \<Rightarrow> check_permissions permission c))"

text \<open>
  The body of a request as \<^verbatim>\<open>request.get_json()\<close> finds it: a value it returns (the
  parsed JSON, \<open>JNull\<close> for \<open>None\<close>), or a body it refuses by raising an HTTP error:
  \<open>BadRequest\<close>, status 400, for a body that is not well-formed JSON, and on a newer version
  of the framework 415 for a content type that is not JSON (an older one returns \<open>None\<close>).
\<close>

datatype payload = Parsed json | Rejected nat

definition get_json :: "payload \<Rightarrow> exn + json" where
  "get_json p = (case p of Parsed j \<Rightarrow> Inr j | Rejected c \<Rightarrow> Inl (HTTPException c))"

text \<open>A request: the value of its Authorization header, if any, and its body.\<close>

record request =
  authorization :: "string option"
  body :: payload

text \<open>
  Modelled from the spec: the decorator \<^verbatim>\<open>@requires_auth(permission)\<close> runs the checker
  and either raises its failure as an \<open>AuthError\<close> or hands the claim set to the handler.
\<close>

definition requires_auth :: "env \<Rightarrow> string \<Rightarrow> request \<Rightarrow> exn + claims" where
  "requires_auth e permission req =
     (case checker e permission (authorization req) of
        Inl f \<Rightarrow> Inl (AuthError (error_payload e f) (status_code f))
      | Inr c \<Rightarrow> Inr c)"

section \<open>The persistence layer\<close>

text \<open>
  Modelled from the spec: the module \<^verbatim>\<open>database/models.py\<close> (the \<open>Drink\<close> model and its
  \<open>insert\<close>, \<open>update\<close>, \<open>delete\<close>) is imported by \<^verbatim>\<open>api.py\<close> and is not among the
  sources. The specification says that the identifier is an integer, unique and
  generated, and that each of the three writes can end in a persistence error. Whether
  the commit of a request succeeds is an input of the model (\<open>ok\<close>); a failed commit
  leaves the table as it was.
\<close>

definition next_id :: "table \<Rightarrow> int" where
  "next_id tbl = fold max (map drink_id tbl) 0 + 1"

definition one_or_none :: "table \<Rightarrow> int \<Rightarrow> drink option" where
  "one_or_none tbl i = find (\<lambda>d. drink_id d = i) tbl"

definition insert_drink :: "bool \<Rightarrow> table \<Rightarrow> json \<Rightarrow> string \<Rightarrow> exn + drink \<times> table" where
  "insert_drink ok tbl t r =
     (if ok then
        (let d = \<lparr>drink_id = next_id tbl, title = t, recipe = r\<rparr> in Inr (d, tbl @ [d]))
      else Inl SQLAlchemyError)"

definition update_drink :: "bool \<Rightarrow> table \<Rightarrow> drink \<Rightarrow> exn + table" where
  "update_drink ok tbl d =
     (if ok then Inr (map (\<lambda>x. if drink_id x = drink_id d then d else x) tbl)
      else Inl SQLAlchemyError)"

definition remove_drink :: "bool \<Rightarrow> table \<Rightarrow> drink \<Rightarrow> exn + table" where
  "remove_drink ok tbl d =
     (if ok then Inr (filter (\<lambda>x. drink_id x \<noteq> drink_id d) tbl)
      else Inl SQLAlchemyError)"

section \<open>The handlers of api.py\<close>

text \<open>
  Each handler returns what it raises (\<open>Inl\<close>) or the value it hands to \<^verbatim>\<open>jsonify\<close>
  (\<open>Inr\<close>); a handler that writes also returns the table after the request. The bare
  \<^verbatim>\<open>except:\<close> of the three writing handlers turns every exception of its
  \<^verbatim>\<open>try\<close> block into \<^verbatim>\<open>abort(404)\<close>. \<^verbatim>\<open>create_drink\<close> and
  \<^verbatim>\<open>edit_drink\<close> call \<^verbatim>\<open>request.get_json()\<close> outside that block, the second after
  it has looked the drink up.
\<close>

definition success_drinks :: "json \<Rightarrow> json" where
  "success_drinks drinks = JObj [(''success'', JBool True), (''drinks'', drinks)]"

definition get_drinks :: "env \<Rightarrow> table \<Rightarrow> exn + json" where
  "get_drinks e tbl =
     (let all_drinks = tbl in
      if length all_drinks = 0 then Inl (HTTPException 404)
      else Inr (success_drinks (JArr (map (short e) all_drinks))))"

definition get_drinks_detail :: "env \<Rightarrow> claims \<Rightarrow> table \<Rightarrow> exn + json" where
  "get_drinks_detail e jwt tbl =
     (let all_drinks = tbl in
      if length all_drinks = 0 then Inl (HTTPException 404)
      else Inr (success_drinks (JArr (map (long e) all_drinks))))"

definition create_drink :: "env \<Rightarrow> bool \<Rightarrow> claims \<Rightarrow> payload \<Rightarrow> table \<Rightarrow> (exn + json) \<times> table" where
  "create_drink e ok jwt b tbl =
     (case get_json b of
        Inl x \<Rightarrow> (Inl x, tbl)
      | Inr data \<Rightarrow>
          (case getitem data ''title'' of
             Inl x \<Rightarrow> (Inl x, tbl)
           | Inr new_title \<Rightarrow>
               (case getitem data ''recipe'' of
                  Inl x \<Rightarrow> (Inl x, tbl)
                | Inr new_recipe \<Rightarrow>
                    (case insert_drink ok tbl new_title (dumps e new_recipe) of
                       Inr (d, tbl') \<Rightarrow> (Inr (success_drinks (long e d)), tbl')
                     | Inl x \<Rightarrow> (Inl (HTTPException 404), tbl)))))"

definition edit_drink :: "env \<Rightarrow> bool \<Rightarrow> claims \<Rightarrow> int \<Rightarrow> payload \<Rightarrow> table \<Rightarrow> (exn + json) \<times> table" where
  "edit_drink e ok jwt i b tbl =
     (case one_or_none tbl i of
        None \<Rightarrow> (Inl (HTTPException 404), tbl)
      | Some d \<Rightarrow>
          (case get_json b of
             Inl x \<Rightarrow> (Inl x, tbl)
           | Inr data \<Rightarrow>
               (case getitem data ''title'' of
                  Inl x \<Rightarrow> (Inl x, tbl)
                | Inr new_title \<Rightarrow>
                    (case getitem data ''recipe'' of
                       Inl x \<Rightarrow> (Inl x, tbl)
                     | Inr new_recipe \<Rightarrow>
                         (let d1 = (if new_title \<noteq> JNull then d\<lparr>title := new_title\<rparr> else d);
                              d2 = (if new_recipe \<noteq> JNull
                                    then d1\<lparr>recipe := dumps e new_recipe\<rparr> else d1)
                          in case update_drink ok tbl d2 of
                               Inr tbl' \<Rightarrow> (Inr (success_drinks (long e d2)), tbl')
                             | Inl x \<Rightarrow> (Inl (HTTPException 404), tbl))))))"

definition delete_drink :: "bool \<Rightarrow> claims \<Rightarrow> int \<Rightarrow> table \<Rightarrow> (exn + json) \<times> table" where
  "delete_drink ok jwt i tbl =
     (case one_or_none tbl i of
        None \<Rightarrow> (Inl (HTTPException 404), tbl)
      | Some d \<Rightarrow>
          (case remove_drink ok tbl d of
             Inr tbl' \<Rightarrow> (Inr (JObj [(''success'', JBool True), (''id'', JNum i)]), tbl')
           | Inl x \<Rightarrow> (Inl (HTTPException 404), tbl)))"

subsection \<open>Error handling\<close>

definition not_found :: response where
  "not_found =
     Response 404 (JObj [(''success'', JBool False), (''error'', JNum 404),
                         (''message'', JStr ''resource not found'')])"

definition unprocessable :: response where
  "unprocessable =
     Response 422 (JObj [(''success'', JBool False), (''error'', JNum 422),
                         (''message'', JStr ''unprocessable'')])"

definition bad_request :: response where
  "bad_request =
     Response 400 (JObj [(''success'', JBool False), (''error'', JNum 400),
                         (''message'', JStr ''bad request'')])"

definition handle_auth_error :: "json \<Rightarrow> nat \<Rightarrow> response" where
  "handle_auth_error error sc = Response sc error"

text \<open>
  The registered error handlers: one each for 404, 422 and 400, and one for
  \<open>AuthError\<close>. Any other exception reaches the framework.
\<close>

fun handle_exception :: "exn \<Rightarrow> response" where
  "handle_exception (HTTPException c) =
     (if c = 404 then not_found
      else if c = 422 then unprocessable
      else if c = 400 then bad_request
      else Framework_default c)"
| "handle_exception (AuthError error sc) = handle_auth_error error sc"
| "handle_exception (KeyError k) = Framework_default 500"
| "handle_exception TypeError = Framework_default 500"
| "handle_exception SQLAlchemyError = Framework_default 500"

definition respond :: "exn + json \<Rightarrow> response" where
  "respond r = (case r of Inl x \<Rightarrow> handle_exception x | Inr j \<Rightarrow> Response 200 j)"

subsection \<open>The routes\<close>

datatype call =
    Get_drinks
  | Get_drinks_detail
  | Post_drinks
  | Patch_drinks int
  | Delete_drinks int

text \<open>
  The route table: \<^verbatim>\<open>GET /drinks\<close> is public; the other four run behind
  \<^verbatim>\<open>@requires_auth\<close> with their permission.
\<close>

fun route :: "env \<Rightarrow> bool \<Rightarrow> call \<Rightarrow> request \<Rightarrow> table \<Rightarrow> (exn + json) \<times> table" where
  "route e ok Get_drinks req tbl = (get_drinks e tbl, tbl)"
| "route e ok Get_drinks_detail req tbl =
     (case requires_auth e ''get:drinks-detail'' req of
        Inl x \<Rightarrow> (Inl x, tbl)
      | Inr jwt \<Rightarrow> (get_drinks_detail e jwt tbl, tbl))"
| "route e ok Post_drinks req tbl =
     (case requires_auth e ''post:drinks'' req of
        Inl x \<Rightarrow> (Inl x, tbl)
      | Inr jwt \<Rightarrow> create_drink e ok jwt (body req) tbl)"
| "route e ok (Patch_drinks i) req tbl =
     (case requires_auth e ''patch:drinks'' req of
        Inl x \<Rightarrow> (Inl x, tbl)
      | Inr jwt \<Rightarrow> edit_drink e ok jwt i (body req) tbl)"
| "route e ok (Delete_drinks i) req tbl =
     (case requires_auth e ''delete:drinks'' req of
        Inl x \<Rightarrow> (Inl x, tbl)
      | Inr jwt \<Rightarrow> delete_drink ok jwt i tbl)"

definition serve :: "env \<Rightarrow> bool \<Rightarrow> call \<Rightarrow> request \<Rightarrow> table \<Rightarrow> response \<times> table" where
  "serve e ok c req tbl = (case route e ok c req tbl of (r, tbl') \<Rightarrow> (respond r, tbl'))"

text \<open>
  The uniform error body \<open>{success: false, error: <status>, message: <text>}\<close>, with
  \<open>error\<close> equal to the status of the response.
\<close>

definition is_error_envelope :: "response \<Rightarrow> bool" where
  "is_error_envelope r =
     (case r of
        Response s (JObj kvs) \<Rightarrow>
          map_of kvs ''success'' = Some (JBool False) \<and>
          map_of kvs ''error'' = Some (JNum (int s)) \<and>
          (case map_of kvs ''message'' of Some (JStr m) \<Rightarrow> True | _ \<Rightarrow> False)
      | _ \<Rightarrow> False)"

section \<open>A sample environment\<close>

text \<open>
  One concrete environment, on which the theorems below are run: two tokens (a manager
  with every permission, a barista who may only read the detail listing), requests
  whose body parses, fixed
  descriptions, a serializer in the layout of \<^verbatim>\<open>json.dumps\<close>, and two representations
  (the short one without the recipe, the long one with the stored recipe text).
\<close>

definition sample_verify :: "string \<Rightarrow> token_error + claims" where
  "sample_verify tok =
     (if tok = ''manager'' then
        Inr \<lparr>expiry = 2000000000,
             permissions = Some [''get:drinks-detail'', ''post:drinks'', ''patch:drinks'',
                                 ''delete:drinks'']\<rparr>
      else if tok = ''barista'' then
        Inr \<lparr>expiry = 2000000000, permissions = Some [''get:drinks-detail'']\<rparr>
      else if tok = ''stale'' then Inl Token_expired
      else Inl Bad_signature)"

fun digits :: "nat \<Rightarrow> string" where
  "digits n =
     (if n < 10 then [''0123456789'' ! n]
      else digits (n div 10) @ [''0123456789'' ! (n mod 10)])"

definition show_int :: "int \<Rightarrow> string" where
  "show_int i = (if i < 0 then ''-'' @ digits (nat (- i)) else digits (nat i))"

fun escape :: "string \<Rightarrow> string" where
  "escape [] = []"
| "escape (c # cs) =
     (if c = CHR 0x22 \<or> c = CHR 0x5C then CHR 0x5C # c # escape cs else c # escape cs)"

definition quoted :: "string \<Rightarrow> string" where
  "quoted s = [CHR 0x22] @ escape s @ [CHR 0x22]"

fun join :: "string \<Rightarrow> string list \<Rightarrow> string" where
  "join sep [] = []"
| "join sep [x] = x"
| "join sep (x # y # ys) = x @ sep @ join sep (y # ys)"

fun sample_dumps :: "json \<Rightarrow> string" where
  "sample_dumps JNull = ''null''"
| "sample_dumps (JBool b) = (if b then ''true'' else ''false'')"
| "sample_dumps (JNum n) = show_int n"
| "sample_dumps (JStr s) = quoted s"
| "sample_dumps (JArr xs) = ''['' @ join '', '' (map sample_dumps xs) @ '']''"
| "sample_dumps (JObj kvs) =
     ''{'' @ join '', '' (map (\<lambda>kv. quoted (fst kv) @ '': '' @ sample_dumps (snd kv)) kvs) @ ''}''"

definition sample_env :: env where
  "sample_env =
     \<lparr>verify_token = sample_verify,
      description = (\<lambda>f. ''not authorized''),
      dumps = sample_dumps,
      short = (\<lambda>d. JObj [(''id'', JNum (drink_id d)), (''title'', title d)]),
      long = (\<lambda>d. JObj [(''id'', JNum (drink_id d)), (''title'', title d),
                          (''recipe'', JStr (recipe d))])\<rparr>"

definition water_recipe :: json where
  "water_recipe =
     JArr [JObj [(''name'', JStr ''water''), (''color'', JStr ''blue''), (''parts'', JNum 1)]]"

definition water :: drink where
  "water = \<lparr>drink_id = 1, title = JStr ''Water'', recipe = sample_dumps water_recipe\<rparr>"

definition manager_request :: "json \<Rightarrow> request" where
  "manager_request b = \<lparr>authorization = Some ''Bearer manager'', body = Parsed b\<rparr>"

definition barista_request :: "json \<Rightarrow> request" where
  "barista_request b = \<lparr>authorization = Some ''Bearer barista'', body = Parsed b\<rparr>"

definition anonymous_request :: "json \<Rightarrow> request" where
  "anonymous_request b = \<lparr>authorization = None, body = Parsed b\<rparr>"

section \<open>Properties\<close>

declare digits.simps [simp del]

lemma sample_dumps_water:
  "sample_dumps water_recipe =
     ''[{'' @ quoted ''name'' @ '': '' @ quoted ''water'' @ '', '' @
             quoted ''color'' @ '': '' @ quoted ''blue'' @ '', '' @
             quoted ''parts'' @ '': 1}]''"
  by (simp add: water_recipe_def show_int_def digits.simps)

lemma body_sample [simp]:
  "body (manager_request b) = Parsed b" "body (barista_request b) = Parsed b"
  "body (anonymous_request b) = Parsed b"
  by (simp_all add: manager_request_def barista_request_def anonymous_request_def)

lemma get_json_Parsed [simp]: "get_json (Parsed j) = Inr j"
  by (simp add: get_json_def)

lemma get_json_Rejected [simp]: "get_json (Rejected c) = Inl (HTTPException c)"
  by (simp add: get_json_def)

lemma one_or_none_absent: "i \<notin> drink_id ` set tbl \<Longrightarrow> one_or_none tbl i = None"
  by (auto simp: one_or_none_def find_None_iff)

lemma one_or_none_present:
  "i \<in> drink_id ` set tbl \<Longrightarrow> \<exists>d. one_or_none tbl i = Some d \<and> drink_id d = i \<and> d \<in> set tbl"
  unfolding one_or_none_def
  by (cases "find (\<lambda>d. drink_id d = i) tbl") (auto simp: find_None_iff find_Some_iff)

lemma status_code_cases: "status_code f = 401 \<or> status_code f = 403"
  by (cases f) simp_all

lemma requires_auth_failure:
  "requires_auth e p req = Inl x \<Longrightarrow> \<exists>f. x = AuthError (error_payload e f) (status_code f)"
  by (auto simp: requires_auth_def split: sum.splits)

lemma fold_max_ge: "(a::int) \<le> fold max xs a"
  by (induction xs arbitrary: a) (auto intro: order_trans [OF max.cobounded2])

lemma fold_max_mem: "(x::int) \<in> set xs \<Longrightarrow> x \<le> fold max xs a"
proof (induction xs arbitrary: a)
  case Nil
  then show ?case by simp
next
  case (Cons y ys)
  show ?case
  proof (cases "x = y")
    case True
    have "y \<le> max y a" by simp
    also have "\<dots> \<le> fold max ys (max y a)" by (rule fold_max_ge)
    finally show ?thesis using True by simp
  next
    case False
    with Cons.prems have "x \<in> set ys" by simp
    then show ?thesis using Cons.IH by simp
  qed
qed

lemma next_id_above: "d \<in> set tbl \<Longrightarrow> drink_id d < next_id tbl"
  using fold_max_mem [of "drink_id d" "map drink_id tbl" 0] by (simp add: next_id_def)

lemma next_id_fresh: "next_id tbl \<notin> drink_id ` set tbl"
  using next_id_above by fastforce

lemma authorized_request:
  "get_token_auth_header (authorization req) = Inr tok \<Longrightarrow> verify_token e tok = Inr c \<Longrightarrow>
   permissions c = Some ps \<Longrightarrow> p \<in> set ps \<Longrightarrow> requires_auth e p req = Inr c"
  by (simp add: requires_auth_def checker_def verify_decode_jwt_def check_permissions_def)


lemma requires_auth_status:
  "requires_auth e p req = Inl x \<Longrightarrow>
     status (handle_exception x) = 401 \<or> status (handle_exception x) = 403"
proof -
  assume "requires_auth e p req = Inl x"
  then obtain f where "x = AuthError (error_payload e f) (status_code f)"
    using requires_auth_failure by blast
  then show ?thesis
    using status_code_cases [of f] by (simp add: handle_auth_error_def)
qed

lemma sample_manager:
  "p \<in> {''get:drinks-detail'', ''post:drinks'', ''patch:drinks'', ''delete:drinks''} \<Longrightarrow>
   requires_auth sample_env p (manager_request b) =
     Inr \<lparr>expiry = 2000000000,
          permissions = Some [''get:drinks-detail'', ''post:drinks'', ''patch:drinks'',
                              ''delete:drinks'']\<rparr>"
  by (simp add: requires_auth_def checker_def verify_decode_jwt_def check_permissions_def
      get_token_auth_header_def split_def is_space_def sample_env_def sample_verify_def
      manager_request_def)

lemma sample_barista_header:
  "get_token_auth_header (authorization (barista_request b)) = Inr ''barista''"
  by (simp add: get_token_auth_header_def split_def is_space_def barista_request_def)

lemma sample_barista:
  "p \<noteq> ''get:drinks-detail'' \<Longrightarrow>
   requires_auth sample_env p (barista_request b) =
     Inl (AuthError (JObj [(''code'', JStr ''insufficient-permission''),
                           (''description'', JStr ''not authorized'')]) 403)"
  by (simp add: requires_auth_def checker_def verify_decode_jwt_def check_permissions_def
      sample_barista_header error_payload_def sample_env_def sample_verify_def)

lemma sample_anonymous:
  "requires_auth sample_env p (anonymous_request b) =
     Inl (AuthError (JObj [(''code'', JStr ''missing-header''),
                           (''description'', JStr ''not authorized'')]) 401)"
  by (simp add: requires_auth_def checker_def get_token_auth_header_def error_payload_def
      sample_env_def anonymous_request_def)

subsection \<open>Listing the drinks\<close>

text \<open>
  Claim C2. \<^verbatim>\<open>GET /drinks\<close> needs no token. On an empty table the response is the 404
  error body; on a non-empty table it is status 200 with \<open>success\<close> true and a \<open>drinks\<close>
  list that holds the short form of every row, one entry per row, in the order of the
  rows. The table is not changed.
\<close>

theorem get_drinks_response:
  "(tbl = [] \<longrightarrow>
      serve e ok Get_drinks req tbl = (not_found, tbl) \<and> status not_found = 404) \<and>
   (tbl \<noteq> [] \<longrightarrow>
      serve e ok Get_drinks req tbl =
        (Response 200 (JObj [(''success'', JBool True),
                             (''drinks'', JArr (map (short e) tbl))]), tbl) \<and>
      length (map (short e) tbl) = length tbl)"
  by (simp add: serve_def get_drinks_def respond_def success_drinks_def not_found_def)

theorem get_drinks_response_witness:
  "serve sample_env True Get_drinks (anonymous_request JNull) [] = (not_found, []) \<and>
   serve sample_env True Get_drinks (anonymous_request JNull) [water] =
     (Response 200 (JObj [(''success'', JBool True),
        (''drinks'', JArr [JObj [(''id'', JNum 1), (''title'', JStr ''Water'')]])]), [water])"
  using get_drinks_response [of "[]" sample_env True "anonymous_request JNull"]
    get_drinks_response [of "[water]" sample_env True "anonymous_request JNull"]
  by (simp add: sample_env_def water_def)

subsection \<open>The checker on a valid token without the permission\<close>

text \<open>
  Claim C7. When the header yields a token, the token validates to a claim set, the claim
  set has a permission array and the required permission is not in it, the checker fails
  with insufficient-permission, whose status is 403; the decorator raises it as an
  \<open>AuthError\<close> with status 403 and the response carries 403.
\<close>

theorem checker_insufficient_permission:
  assumes "get_token_auth_header h = Inr tok"
    and "verify_token e tok = Inr c"
    and "permissions c = Some ps"
    and "permission \<notin> set ps"
  shows "checker e permission h = Inl Insufficient_permission \<and>
         status_code Insufficient_permission = 403 \<and>
         requires_auth e permission \<lparr>authorization = h, body = b\<rparr> =
           Inl (AuthError (error_payload e Insufficient_permission) 403) \<and>
         status (handle_exception (AuthError (error_payload e Insufficient_permission) 403)) = 403"
  using assms
  by (simp add: checker_def verify_decode_jwt_def check_permissions_def requires_auth_def
      handle_auth_error_def)

theorem checker_insufficient_permission_witness:
  "checker sample_env ''post:drinks'' (Some ''Bearer barista'') = Inl Insufficient_permission \<and>
   status_code Insufficient_permission = 403 \<and>
   requires_auth sample_env ''post:drinks'' \<lparr>authorization = Some ''Bearer barista'', body = Parsed JNull\<rparr> =
     Inl (AuthError (error_payload sample_env Insufficient_permission) 403) \<and>
   status (handle_exception (AuthError (error_payload sample_env Insufficient_permission) 403)) = 403"
proof -
  have h: "get_token_auth_header (Some ''Bearer barista'') = Inr ''barista''"
    by (simp add: get_token_auth_header_def split_def is_space_def)
  have v: "verify_token sample_env ''barista'' =
      Inr \<lparr>expiry = 2000000000, permissions = Some [''get:drinks-detail'']\<rparr>"
    by (simp add: sample_env_def sample_verify_def)
  show ?thesis
    using checker_insufficient_permission [OF h v, of "[''get:drinks-detail'']" "''post:drinks''" "Parsed JNull"]
    by simp
qed

subsection \<open>Creating a drink when the insert raises\<close>

text \<open>
  Claim C8. A \<^verbatim>\<open>POST /drinks\<close> request that passes authorization and reaches the insert
  (the body parses and has both keys), and whose insert raises, is answered with the 404
  error body; the table is unchanged.
\<close>

theorem create_drink_persistence_error:
  assumes "requires_auth e ''post:drinks'' req = Inr jwt"
    and "body req = Parsed data"
    and "getitem data ''title'' = Inr new_title"
    and "getitem data ''recipe'' = Inr new_recipe"
    and "insert_drink ok tbl new_title (dumps e new_recipe) = Inl x"
  shows "serve e ok Post_drinks req tbl = (not_found, tbl) \<and> status not_found = 404"
  using assms
  by (simp add: serve_def create_drink_def respond_def not_found_def)

theorem create_drink_persistence_error_witness:
  "serve sample_env False Post_drinks
     (manager_request (JObj [(''title'', JStr ''Water''), (''recipe'', water_recipe)])) [water] =
     (not_found, [water]) \<and> status not_found = 404"
proof -
  let ?req = "manager_request (JObj [(''title'', JStr ''Water''), (''recipe'', water_recipe)])"
  have a: "requires_auth sample_env ''post:drinks'' ?req =
      Inr \<lparr>expiry = 2000000000,
           permissions = Some [''get:drinks-detail'', ''post:drinks'', ''patch:drinks'',
                               ''delete:drinks'']\<rparr>"
    by (simp add: sample_manager)
  have b: "body ?req = Parsed (JObj [(''title'', JStr ''Water''), (''recipe'', water_recipe)])"
    by simp
  have t: "getitem (JObj [(''title'', JStr ''Water''), (''recipe'', water_recipe)]) ''title'' =
      Inr (JStr ''Water'')"
    by simp
  have r: "getitem (JObj [(''title'', JStr ''Water''), (''recipe'', water_recipe)]) ''recipe'' =
      Inr water_recipe"
    by simp
  have i: "insert_drink False [water] (JStr ''Water'') (dumps sample_env water_recipe) =
      Inl SQLAlchemyError"
    by (simp add: insert_drink_def)
  show ?thesis
    using create_drink_persistence_error [OF a b t r i] by simp
qed

subsection \<open>A body without the title or the recipe key\<close>

lemma getitem_missing: "k \<notin> fst ` set kvs \<Longrightarrow> getitem (JObj kvs) k = Inl (KeyError k)"
proof -
  assume "k \<notin> fst ` set kvs"
  then have "map_of kvs k = None" by (simp add: map_of_eq_None_iff)
  then show ?thesis by simp
qed

lemma getitem_present: "k \<in> fst ` set kvs \<Longrightarrow> \<exists>v. getitem (JObj kvs) k = Inr v"
  by (cases "map_of kvs k") (auto simp: map_of_eq_None_iff)

lemma missing_key_raises:
  assumes "''title'' \<notin> fst ` set kvs \<or> ''recipe'' \<notin> fst ` set kvs"
  shows "\<exists>k. (k = ''title'' \<or> k = ''recipe'') \<and> k \<notin> fst ` set kvs \<and>
           (\<forall>jwt. create_drink e ok jwt (Parsed (JObj kvs)) tbl = (Inl (KeyError k), tbl)) \<and>
           (\<forall>jwt. i \<in> drink_id ` set tbl \<longrightarrow>
              edit_drink e ok jwt i (Parsed (JObj kvs)) tbl = (Inl (KeyError k), tbl))"
proof (cases "''title'' \<in> fst ` set kvs")
  case False
  then have g: "getitem (JObj kvs) ''title'' = Inl (KeyError ''title'')"
    by (rule getitem_missing)
  have "\<forall>jwt. create_drink e ok jwt (Parsed (JObj kvs)) tbl = (Inl (KeyError ''title''), tbl)"
    using g by (simp add: create_drink_def)
  moreover have "\<forall>jwt. i \<in> drink_id ` set tbl \<longrightarrow>
      edit_drink e ok jwt i (Parsed (JObj kvs)) tbl = (Inl (KeyError ''title''), tbl)"
    using g by (auto simp: edit_drink_def dest!: one_or_none_present)
  ultimately show ?thesis using False by blast
next
  case True
  then obtain v where t: "getitem (JObj kvs) ''title'' = Inr v"
    using getitem_present by blast
  from True assms have m: "''recipe'' \<notin> fst ` set kvs" by blast
  then have g: "getitem (JObj kvs) ''recipe'' = Inl (KeyError ''recipe'')"
    by (rule getitem_missing)
  have "\<forall>jwt. create_drink e ok jwt (Parsed (JObj kvs)) tbl = (Inl (KeyError ''recipe''), tbl)"
    using g t by (simp add: create_drink_def)
  moreover have "\<forall>jwt. i \<in> drink_id ` set tbl \<longrightarrow>
      edit_drink e ok jwt i (Parsed (JObj kvs)) tbl = (Inl (KeyError ''recipe''), tbl)"
    using g t by (auto simp: edit_drink_def dest!: one_or_none_present)
  ultimately show ?thesis using m by blast
qed

text \<open>
  As claim C9 is stated it fails: both routes run behind \<^verbatim>\<open>@requires_auth\<close>. A
  \<^verbatim>\<open>POST /drinks\<close> request without an Authorization header whose body is the empty
  object lacks both keys, and the handler is never called: what is raised is the
  checker's \<open>AuthError\<close>, not a \<open>KeyError\<close>, and the answer has status 401.
\<close>

theorem missing_key_counterexample:
  "''title'' \<notin> fst ` set ([] :: (string \<times> json) list) \<and>
   route sample_env True Post_drinks (anonymous_request (JObj [])) [water] =
     (Inl (AuthError (error_payload sample_env Missing_header) 401), [water]) \<and>
   status (fst (serve sample_env True Post_drinks (anonymous_request (JObj [])) [water])) = 401"
  by (simp add: serve_def respond_def handle_auth_error_def requires_auth_def checker_def
      get_token_auth_header_def anonymous_request_def)

text \<open>
  Claim C9, amended. When the JSON object of the body lacks the key \<open>title\<close> or the key
  \<open>recipe\<close>, the handler of \<^verbatim>\<open>POST /drinks\<close>, and the handler of
  \<^verbatim>\<open>PATCH /drinks/<id>\<close> on an existing id, raise \<open>KeyError\<close> for a missing key before
  they reach the \<^verbatim>\<open>try\<close> block, whatever the commit would have done, and leave the
  table alone. The handlers run for the requests that pass authorization, and every such
  request is answered with the framework's status 500, which is neither the uniform
  error body nor a 4xx status.
\<close>

theorem missing_key_uncaught:
  assumes "''title'' \<notin> fst ` set kvs \<or> ''recipe'' \<notin> fst ` set kvs"
    and "body req = Parsed (JObj kvs)"
  shows "\<exists>k. (k = ''title'' \<or> k = ''recipe'') \<and> k \<notin> fst ` set kvs \<and>
           create_drink e ok jwt (body req) tbl = (Inl (KeyError k), tbl) \<and>
           (i \<in> drink_id ` set tbl \<longrightarrow>
              edit_drink e ok jwt i (body req) tbl = (Inl (KeyError k), tbl)) \<and>
           (requires_auth e ''post:drinks'' req = Inr jwt \<longrightarrow>
              route e ok Post_drinks req tbl = (Inl (KeyError k), tbl) \<and>
              serve e ok Post_drinks req tbl = (Framework_default 500, tbl)) \<and>
           (requires_auth e ''patch:drinks'' req = Inr jwt \<and> i \<in> drink_id ` set tbl \<longrightarrow>
              route e ok (Patch_drinks i) req tbl = (Inl (KeyError k), tbl) \<and>
              serve e ok (Patch_drinks i) req tbl = (Framework_default 500, tbl)) \<and>
           status (Framework_default 500) = 500 \<and>
           \<not> is_error_envelope (Framework_default 500)"
proof -
  obtain k where k: "k = ''title'' \<or> k = ''recipe''" "k \<notin> fst ` set kvs"
    "create_drink e ok jwt (Parsed (JObj kvs)) tbl = (Inl (KeyError k), tbl)"
    "i \<in> drink_id ` set tbl \<longrightarrow>
       edit_drink e ok jwt i (Parsed (JObj kvs)) tbl = (Inl (KeyError k), tbl)"
    using missing_key_raises [OF assms(1), of e ok tbl i] by blast
  have c: "create_drink e ok jwt (body req) tbl = (Inl (KeyError k), tbl)"
    using k(3) assms(2) by simp
  have d: "i \<in> drink_id ` set tbl \<longrightarrow>
      edit_drink e ok jwt i (body req) tbl = (Inl (KeyError k), tbl)"
    using k(4) assms(2) by simp
  have p: "requires_auth e ''post:drinks'' req = Inr jwt \<longrightarrow>
      route e ok Post_drinks req tbl = (Inl (KeyError k), tbl) \<and>
      serve e ok Post_drinks req tbl = (Framework_default 500, tbl)"
    using c by (simp add: serve_def respond_def)
  have q: "requires_auth e ''patch:drinks'' req = Inr jwt \<and> i \<in> drink_id ` set tbl \<longrightarrow>
      route e ok (Patch_drinks i) req tbl = (Inl (KeyError k), tbl) \<and>
      serve e ok (Patch_drinks i) req tbl = (Framework_default 500, tbl)"
    using d by (simp add: serve_def respond_def)
  have n: "status (Framework_default 500) = 500 \<and> \<not> is_error_envelope (Framework_default 500)"
    by (simp add: is_error_envelope_def)
  show ?thesis
    using k(1,2) c d p q n by blast
qed

theorem missing_key_uncaught_witness:
  "\<exists>k. (k = ''title'' \<or> k = ''recipe'') \<and> k \<notin> fst ` set [(''title'', JStr ''NewName'')] \<and>
        route sample_env True Post_drinks
          (manager_request (JObj [(''title'', JStr ''NewName'')])) [water] =
          (Inl (KeyError k), [water]) \<and>
        serve sample_env True Post_drinks
          (manager_request (JObj [(''title'', JStr ''NewName'')])) [water] =
          (Framework_default 500, [water]) \<and>
        route sample_env True (Patch_drinks 1)
          (manager_request (JObj [(''title'', JStr ''NewName'')])) [water] =
          (Inl (KeyError k), [water]) \<and>
        serve sample_env True (Patch_drinks 1)
          (manager_request (JObj [(''title'', JStr ''NewName'')])) [water] =
          (Framework_default 500, [water])"
proof -
  let ?req = "manager_request (JObj [(''title'', JStr ''NewName'')])"
  let ?jwt = "\<lparr>expiry = 2000000000,
               permissions = Some [''get:drinks-detail'', ''post:drinks'', ''patch:drinks'',
                                   ''delete:drinks'']\<rparr>"
  have m: "''title'' \<notin> fst ` set [(''title'', JStr ''NewName'')] \<or>
           ''recipe'' \<notin> fst ` set [(''title'', JStr ''NewName'')]"
    by simp
  have b: "body ?req = Parsed (JObj [(''title'', JStr ''NewName'')])"
    by simp
  have i: "(1::int) \<in> drink_id ` set [water]"
    by (simp add: water_def)
  have a: "requires_auth sample_env ''post:drinks'' ?req = Inr ?jwt"
    by (simp add: sample_manager)
  have a': "requires_auth sample_env ''patch:drinks'' ?req = Inr ?jwt"
    by (simp add: sample_manager)
  show ?thesis
    using missing_key_uncaught [OF m b, of sample_env True ?jwt "[water]" 1] i a a'
    by blast
qed

subsection \<open>A PATCH that supplies only the title\<close>

text \<open>
  The two guards of the handler (\<^verbatim>\<open>if new_title is not None\<close>,
  \<^verbatim>\<open>if new_recipe is not None\<close>) make the update partial for a body that names both
  keys and gives \<open>null\<close> for one: with \<open>recipe\<close> null the title changes and the stored
  recipe stays.
\<close>

lemma edit_drink_null_recipe:
  assumes "one_or_none tbl i = Some d"
    and "map_of kvs ''title'' = Some new_title"
    and "new_title \<noteq> JNull"
    and "map_of kvs ''recipe'' = Some JNull"
  shows "edit_drink e True jwt i (Parsed (JObj kvs)) tbl =
           (Inr (success_drinks (long e (d\<lparr>title := new_title\<rparr>))),
            map (\<lambda>x. if drink_id x = drink_id d then d\<lparr>title := new_title\<rparr> else x) tbl) \<and>
         recipe (d\<lparr>title := new_title\<rparr>) = recipe d"
  using assms by (simp add: edit_drink_def update_drink_def Let_def)

text \<open>
  Claim C1. The claim asks that a \<^verbatim>\<open>PATCH /drinks/<id>\<close> on an existing id whose body
  has the title and no recipe key updates the title and keeps the recipe. The handler
  reads \<^verbatim>\<open>data['recipe']\<close> before its guards: on the table holding the drink Water
  with id 1 and the body \<open>{"title": "NewName"}\<close> it raises \<open>KeyError\<close> for \<open>recipe\<close>, the
  answer is the framework's status 500, and the table still holds the title Water.
\<close>

theorem edit_drink_title_only:
  "edit_drink e ok jwt 1 (Parsed (JObj [(''title'', JStr ''NewName'')])) [water] =
     (Inl (KeyError ''recipe''), [water]) \<and>
   serve sample_env True (Patch_drinks 1)
     (manager_request (JObj [(''title'', JStr ''NewName'')])) [water] =
     (Framework_default 500, [water]) \<and>
   title water = JStr ''Water''"
proof -
  have h: "edit_drink e ok jwt 1 (Parsed (JObj [(''title'', JStr ''NewName'')])) [water] =
      (Inl (KeyError ''recipe''), [water])" for e ok jwt
    by (simp add: edit_drink_def one_or_none_def water_def)
  have r: "serve sample_env True (Patch_drinks 1)
      (manager_request (JObj [(''title'', JStr ''NewName'')])) [water] =
      (Framework_default 500, [water])"
    by (simp add: serve_def sample_manager h respond_def)
  show ?thesis using h r by (simp add: water_def)
qed

subsection \<open>Deleting a drink that does not exist\<close>

text \<open>
  As claim C3 is stated it fails: the route runs behind \<^verbatim>\<open>@requires_auth\<close>, and a
  request without an Authorization header for the absent id 7 is answered 401.
\<close>

theorem delete_absent_counterexample:
  "7 \<notin> drink_id ` set [water] \<and>
   serve sample_env True (Delete_drinks 7) (anonymous_request JNull) [water] =
     (Response 401 (JObj [(''code'', JStr ''missing-header''),
                          (''description'', JStr ''not authorized'')]), [water])"
  by (simp add: serve_def sample_anonymous respond_def handle_auth_error_def water_def)

text \<open>
  Claim C3, amended. When no drink has the given id, a \<^verbatim>\<open>DELETE /drinks/<id>\<close> request
  that passes authorization is answered with the 404 error body; a request that does not
  pass is answered with the checker's failure, status 401 or 403. In both cases the
  status is not 200 and the table is unchanged.
\<close>

theorem delete_absent:
  assumes "i \<notin> drink_id ` set tbl"
  shows "(requires_auth e ''delete:drinks'' req = Inr jwt \<longrightarrow>
            serve e ok (Delete_drinks i) req tbl = (not_found, tbl) \<and> status not_found = 404) \<and>
         (requires_auth e ''delete:drinks'' req = Inl x \<longrightarrow>
            serve e ok (Delete_drinks i) req tbl = (handle_exception x, tbl) \<and>
            (status (handle_exception x) = 401 \<or> status (handle_exception x) = 403)) \<and>
         status (fst (serve e ok (Delete_drinks i) req tbl)) \<noteq> 200 \<and>
         snd (serve e ok (Delete_drinks i) req tbl) = tbl"
proof -
  have n: "one_or_none tbl i = None"
    using assms by (rule one_or_none_absent)
  have a: "requires_auth e ''delete:drinks'' req = Inr jwt \<longrightarrow>
      serve e ok (Delete_drinks i) req tbl = (not_found, tbl) \<and> status not_found = 404"
    using n by (simp add: serve_def delete_drink_def respond_def not_found_def)
  have b: "requires_auth e ''delete:drinks'' req = Inl x \<longrightarrow>
      serve e ok (Delete_drinks i) req tbl = (handle_exception x, tbl) \<and>
      (status (handle_exception x) = 401 \<or> status (handle_exception x) = 403)"
    using requires_auth_status [of e "''delete:drinks''" req x]
    by (simp add: serve_def respond_def)
  have c: "status (fst (serve e ok (Delete_drinks i) req tbl)) \<noteq> 200 \<and>
      snd (serve e ok (Delete_drinks i) req tbl) = tbl"
  proof (cases "requires_auth e ''delete:drinks'' req")
    case (Inl y)
    then show ?thesis
      using requires_auth_status [of e "''delete:drinks''" req y]
      by (auto simp: serve_def respond_def)
  next
    case (Inr c)
    then show ?thesis
      using n by (simp add: serve_def delete_drink_def respond_def not_found_def)
  qed
  show ?thesis using a b c by blast
qed

theorem delete_absent_witness:
  "serve sample_env True (Delete_drinks 7) (manager_request JNull) [water] = (not_found, [water]) \<and>
   status not_found = 404 \<and>
   serve sample_env True (Delete_drinks 7) (anonymous_request JNull) [water] =
     (handle_exception (AuthError (JObj [(''code'', JStr ''missing-header''),
                           (''description'', JStr ''not authorized'')]) 401), [water]) \<and>
   status (fst (serve sample_env True (Delete_drinks 7) (manager_request JNull) [water])) \<noteq> 200 \<and>
   snd (serve sample_env True (Delete_drinks 7) (manager_request JNull) [water]) = [water]"
proof -
  have i: "7 \<notin> drink_id ` set [water]"
    by (simp add: water_def)
  show ?thesis
    using delete_absent [OF i, of sample_env "manager_request JNull"
        "\<lparr>expiry = 2000000000,
          permissions = Some [''get:drinks-detail'', ''post:drinks'', ''patch:drinks'',
                              ''delete:drinks'']\<rparr>" True]
      delete_absent [OF i, of sample_env "anonymous_request JNull" _ True
        "AuthError (JObj [(''code'', JStr ''missing-header''),
                           (''description'', JStr ''not authorized'')]) 401"]
    by (simp add: sample_manager sample_anonymous)
qed

subsection \<open>Editing a drink that does not exist\<close>

text \<open>
  As claim C5 is stated it fails: a barista's token validates and lacks
  \<open>patch:drinks\<close>, and the request for the absent id 7 is answered 403.
\<close>

theorem edit_absent_counterexample:
  "7 \<notin> drink_id ` set [water] \<and>
   serve sample_env True (Patch_drinks 7)
     (barista_request (JObj [(''title'', JStr ''Tea''), (''recipe'', water_recipe)])) [water] =
     (Response 403 (JObj [(''code'', JStr ''insufficient-permission''),
                          (''description'', JStr ''not authorized'')]), [water])"
  by (simp add: serve_def sample_barista respond_def handle_auth_error_def water_def)

text \<open>
  Claim C5, amended. When no drink has the given id, a \<^verbatim>\<open>PATCH /drinks/<id>\<close> request
  that passes authorization is answered with the 404 error body; a request that does not
  pass is answered with the checker's failure, status 401 or 403. In both cases no row of
  the table is modified.
\<close>

theorem edit_absent:
  assumes "i \<notin> drink_id ` set tbl"
  shows "(requires_auth e ''patch:drinks'' req = Inr jwt \<longrightarrow>
            serve e ok (Patch_drinks i) req tbl = (not_found, tbl) \<and> status not_found = 404) \<and>
         (requires_auth e ''patch:drinks'' req = Inl x \<longrightarrow>
            serve e ok (Patch_drinks i) req tbl = (handle_exception x, tbl) \<and>
            (status (handle_exception x) = 401 \<or> status (handle_exception x) = 403)) \<and>
         snd (serve e ok (Patch_drinks i) req tbl) = tbl"
proof -
  have n: "one_or_none tbl i = None"
    using assms by (rule one_or_none_absent)
  have a: "requires_auth e ''patch:drinks'' req = Inr jwt \<longrightarrow>
      serve e ok (Patch_drinks i) req tbl = (not_found, tbl) \<and> status not_found = 404"
    using n by (simp add: serve_def edit_drink_def respond_def not_found_def)
  have b: "requires_auth e ''patch:drinks'' req = Inl x \<longrightarrow>
      serve e ok (Patch_drinks i) req tbl = (handle_exception x, tbl) \<and>
      (status (handle_exception x) = 401 \<or> status (handle_exception x) = 403)"
    using requires_auth_status [of e "''patch:drinks''" req x]
    by (simp add: serve_def respond_def)
  have c: "snd (serve e ok (Patch_drinks i) req tbl) = tbl"
    using n by (cases "requires_auth e ''patch:drinks'' req")
      (simp_all add: serve_def edit_drink_def)
  show ?thesis using a b c by blast
qed

theorem edit_absent_witness:
  "serve sample_env True (Patch_drinks 7)
     (manager_request (JObj [(''title'', JStr ''Tea'')])) [water] = (not_found, [water]) \<and>
   status not_found = 404 \<and>
   serve sample_env True (Patch_drinks 7)
     (barista_request (JObj [(''title'', JStr ''Tea'')])) [water] =
     (handle_exception (AuthError (JObj [(''code'', JStr ''insufficient-permission''),
                           (''description'', JStr ''not authorized'')]) 403), [water])"
proof -
  have i: "7 \<notin> drink_id ` set [water]"
    by (simp add: water_def)
  show ?thesis
    using edit_absent [OF i, of sample_env "manager_request (JObj [(''title'', JStr ''Tea'')])"
        "\<lparr>expiry = 2000000000,
          permissions = Some [''get:drinks-detail'', ''post:drinks'', ''patch:drinks'',
                              ''delete:drinks'']\<rparr>" True]
      edit_absent [OF i, of sample_env "barista_request (JObj [(''title'', JStr ''Tea'')])" _ True
        "AuthError (JObj [(''code'', JStr ''insufficient-permission''),
                           (''description'', JStr ''not authorized'')]) 403"]
    by (simp add: sample_manager sample_barista)
qed

lemma sample_barista_detail:
  "requires_auth sample_env ''get:drinks-detail'' (barista_request b) =
     Inr \<lparr>expiry = 2000000000, permissions = Some [''get:drinks-detail'']\<rparr>"
  by (simp add: requires_auth_def checker_def verify_decode_jwt_def check_permissions_def
      sample_barista_header sample_env_def sample_verify_def)

subsection \<open>Creating a drink\<close>

text \<open>
  An insert keeps the identifiers of the table distinct.
\<close>

lemma insert_drink_distinct:
  assumes "distinct (map drink_id tbl)"
    and "insert_drink ok tbl t r = Inr (d, tbl')"
  shows "distinct (map drink_id tbl')"
proof -
  have "d = \<lparr>drink_id = next_id tbl, title = t, recipe = r\<rparr>" and "tbl' = tbl @ [d]"
    using assms(2) by (auto simp: insert_drink_def Let_def split: if_splits)
  then show ?thesis
    using assms(1) next_id_fresh [of tbl] by simp
qed

text \<open>
  As claim C4 is stated it fails: with a manager's token and a body holding a title and
  a recipe, a request whose insert raises is answered with the 404 error body and no row
  is inserted.
\<close>

theorem create_drink_counterexample:
  "serve sample_env False Post_drinks
     (manager_request (JObj [(''title'', JStr ''Water''), (''recipe'', water_recipe)])) [] =
     (Response 404 (JObj [(''success'', JBool False), (''error'', JNum 404),
                          (''message'', JStr ''resource not found'')]), [])"
  by (simp add: serve_def sample_manager create_drink_def insert_drink_def respond_def
      not_found_def)

text \<open>
  Claim C4, amended. For a \<^verbatim>\<open>POST /drinks\<close> request that carries a valid token whose
  permissions hold \<open>post:drinks\<close> and a JSON body with a title and a recipe, if the insert
  does not raise, the table gains one row that stores the title and the recipe serialized
  as text under a generated id no other row has, and the response is status 200 with
  \<open>success\<close> true and \<open>drinks\<close> the long form of that new row.
\<close>

theorem create_drink_inserts:
  assumes "get_token_auth_header (authorization req) = Inr tok"
    and "verify_token e tok = Inr c"
    and "permissions c = Some ps"
    and "''post:drinks'' \<in> set ps"
    and "body req = Parsed (JObj kvs)"
    and "map_of kvs ''title'' = Some new_title"
    and "map_of kvs ''recipe'' = Some new_recipe"
    and "insert_drink ok tbl new_title (dumps e new_recipe) = Inr (d, tbl')"
  shows "serve e ok Post_drinks req tbl =
           (Response 200 (JObj [(''success'', JBool True), (''drinks'', long e d)]), tbl') \<and>
         tbl' = tbl @ [d] \<and> title d = new_title \<and> recipe d = dumps e new_recipe \<and>
         drink_id d = next_id tbl \<and> drink_id d \<notin> drink_id ` set tbl"
proof -
  have a: "requires_auth e ''post:drinks'' req = Inr c"
    using assms(1-4) by (rule authorized_request)
  have s: "serve e ok Post_drinks req tbl =
      (Response 200 (JObj [(''success'', JBool True), (''drinks'', long e d)]), tbl')"
    using a assms(5-8) by (simp add: serve_def create_drink_def respond_def success_drinks_def)
  have d: "d = \<lparr>drink_id = next_id tbl, title = new_title, recipe = dumps e new_recipe\<rparr>"
    and t: "tbl' = tbl @ [d]"
    using assms(8) by (auto simp: insert_drink_def Let_def split: if_splits)
  have f: "drink_id d \<notin> drink_id ` set tbl"
    using next_id_fresh [of tbl] d by simp
  show ?thesis using s t f d by simp
qed

theorem create_drink_inserts_witness:
  "serve sample_env True Post_drinks
     (manager_request (JObj [(''title'', JStr ''Water''), (''recipe'', water_recipe)])) [] =
     (Response 200 (JObj [(''success'', JBool True),
        (''drinks'', JObj [(''id'', JNum 1), (''title'', JStr ''Water''),
                           (''recipe'', JStr (sample_dumps water_recipe))])]),
      [\<lparr>drink_id = 1, title = JStr ''Water'', recipe = sample_dumps water_recipe\<rparr>])"
proof -
  let ?req = "manager_request (JObj [(''title'', JStr ''Water''), (''recipe'', water_recipe)])"
  let ?d = "\<lparr>drink_id = 1, title = JStr ''Water'', recipe = sample_dumps water_recipe\<rparr>"
  have h: "get_token_auth_header (authorization ?req) = Inr ''manager''"
    by (simp add: get_token_auth_header_def split_def is_space_def manager_request_def)
  have v: "verify_token sample_env ''manager'' =
      Inr \<lparr>expiry = 2000000000,
           permissions = Some [''get:drinks-detail'', ''post:drinks'', ''patch:drinks'',
                               ''delete:drinks'']\<rparr>"
    by (simp add: sample_env_def sample_verify_def)
  have p: "permissions \<lparr>expiry = 2000000000,
           permissions = Some [''get:drinks-detail'', ''post:drinks'', ''patch:drinks'',
                               ''delete:drinks'']\<rparr> =
      Some [''get:drinks-detail'', ''post:drinks'', ''patch:drinks'', ''delete:drinks'']"
    by simp
  have m: "''post:drinks'' \<in>
      set [''get:drinks-detail'', ''post:drinks'', ''patch:drinks'', ''delete:drinks'']"
    by simp
  have b: "body ?req = Parsed (JObj [(''title'', JStr ''Water''), (''recipe'', water_recipe)])"
    by simp
  have t: "map_of [(''title'', JStr ''Water''), (''recipe'', water_recipe)] ''title'' =
      Some (JStr ''Water'')"
    by simp
  have r: "map_of [(''title'', JStr ''Water''), (''recipe'', water_recipe)] ''recipe'' =
      Some water_recipe"
    by simp
  have i: "insert_drink True [] (JStr ''Water'') (dumps sample_env water_recipe) = Inr (?d, [?d])"
    by (simp add: insert_drink_def Let_def next_id_def sample_env_def)
  show ?thesis
    using create_drink_inserts [OF h v p m b t r i] by (simp add: sample_env_def)
qed

subsection \<open>The bodies of failure responses\<close>

text \<open>
  What an operation can raise: the 404 of \<^verbatim>\<open>abort\<close>, the HTTP error with which
  \<^verbatim>\<open>get_json\<close> refuses the body, a \<open>KeyError\<close> or \<open>TypeError\<close> of \<^verbatim>\<open>data[...]\<close>, or
  the checker's \<open>AuthError\<close>.
\<close>

lemma getitem_raises:
  "getitem data k = Inl x \<Longrightarrow> (\<exists>k'. x = KeyError k') \<or> x = TypeError"
  by (cases data) (auto split: option.splits)

lemma get_drinks_raises: "get_drinks e tbl = Inl x \<Longrightarrow> x = HTTPException 404"
  by (simp add: get_drinks_def split: if_splits)

lemma get_drinks_detail_raises: "get_drinks_detail e jwt tbl = Inl x \<Longrightarrow> x = HTTPException 404"
  by (simp add: get_drinks_detail_def split: if_splits)

lemma create_drink_raises:
  assumes "fst (create_drink e ok jwt b tbl) = Inl x"
  shows "x = HTTPException 404 \<or> (\<exists>c. b = Rejected c \<and> x = HTTPException c) \<or>
         (\<exists>k. x = KeyError k) \<or> x = TypeError"
proof (cases b)
  case (Rejected c)
  then show ?thesis using assms by (simp add: create_drink_def)
next
  case (Parsed data)
  show ?thesis
  proof (cases "getitem data ''title''")
    case (Inl y)
    then show ?thesis
      using assms Parsed getitem_raises [OF Inl] by (simp add: create_drink_def)
  next
    case t: (Inr new_title)
    show ?thesis
    proof (cases "getitem data ''recipe''")
      case (Inl y)
      then show ?thesis
        using assms Parsed t getitem_raises [OF Inl] by (simp add: create_drink_def)
    next
      case r: (Inr new_recipe)
      show ?thesis
      proof (cases "insert_drink ok tbl new_title (dumps e new_recipe)")
        case (Inl y)
        then show ?thesis using assms Parsed t r by (simp add: create_drink_def)
      next
        case (Inr p)
        then show ?thesis using assms Parsed t r by (cases p) (simp add: create_drink_def)
      qed
    qed
  qed
qed

lemma edit_drink_raises:
  assumes "fst (edit_drink e ok jwt i b tbl) = Inl x"
  shows "x = HTTPException 404 \<or> (\<exists>c. b = Rejected c \<and> x = HTTPException c) \<or>
         (\<exists>k. x = KeyError k) \<or> x = TypeError"
proof (cases "one_or_none tbl i")
  case None
  then show ?thesis using assms by (simp add: edit_drink_def)
next
  case d: (Some d)
  show ?thesis
  proof (cases b)
    case (Rejected c)
    then show ?thesis using assms d by (simp add: edit_drink_def)
  next
    case (Parsed data)
    show ?thesis
    proof (cases "getitem data ''title''")
      case (Inl y)
      then show ?thesis
        using assms d Parsed getitem_raises [OF Inl] by (simp add: edit_drink_def)
    next
      case t: (Inr new_title)
      show ?thesis
      proof (cases "getitem data ''recipe''")
        case (Inl y)
        then show ?thesis
          using assms d Parsed t getitem_raises [OF Inl] by (simp add: edit_drink_def)
      next
        case r: (Inr new_recipe)
        show ?thesis
          using assms d Parsed t r
          by (cases ok) (simp_all add: edit_drink_def update_drink_def Let_def)
      qed
    qed
  qed
qed

lemma delete_drink_raises:
  "fst (delete_drink ok jwt i tbl) = Inl x \<Longrightarrow> x = HTTPException 404"
  unfolding delete_drink_def
  by (auto split: sum.splits option.splits)

lemma route_raises:
  assumes "fst (route e ok cl req tbl) = Inl x"
  shows "x = HTTPException 404 \<or> (\<exists>c. body req = Rejected c \<and> x = HTTPException c) \<or>
         (\<exists>k. x = KeyError k) \<or> x = TypeError \<or>
         (\<exists>f. x = AuthError (error_payload e f) (status_code f))"
proof (cases cl)
  case Get_drinks
  then show ?thesis using assms get_drinks_raises by simp
next
  case Get_drinks_detail
  show ?thesis
  proof (cases "requires_auth e ''get:drinks-detail'' req")
    case (Inl y)
    then have "x = y" using assms Get_drinks_detail by simp
    then show ?thesis using requires_auth_failure [OF Inl] by blast
  next
    case (Inr jwt)
    then have "get_drinks_detail e jwt tbl = Inl x"
      using assms Get_drinks_detail by simp
    then show ?thesis using get_drinks_detail_raises by blast
  qed
next
  case Post_drinks
  show ?thesis
  proof (cases "requires_auth e ''post:drinks'' req")
    case (Inl y)
    then have "x = y" using assms Post_drinks by simp
    then show ?thesis using requires_auth_failure [OF Inl] by blast
  next
    case (Inr jwt)
    then have "fst (create_drink e ok jwt (body req) tbl) = Inl x"
      using assms Post_drinks by simp
    then show ?thesis using create_drink_raises by blast
  qed
next
  case (Patch_drinks i)
  show ?thesis
  proof (cases "requires_auth e ''patch:drinks'' req")
    case (Inl y)
    then have "x = y" using assms Patch_drinks by simp
    then show ?thesis using requires_auth_failure [OF Inl] by blast
  next
    case (Inr jwt)
    then have "fst (edit_drink e ok jwt i (body req) tbl) = Inl x"
      using assms Patch_drinks by simp
    then show ?thesis using edit_drink_raises by blast
  qed
next
  case (Delete_drinks i)
  show ?thesis
  proof (cases "requires_auth e ''delete:drinks'' req")
    case (Inl y)
    then have "x = y" using assms Delete_drinks by simp
    then show ?thesis using requires_auth_failure [OF Inl] by blast
  next
    case (Inr jwt)
    then have "fst (delete_drink ok jwt i tbl) = Inl x"
      using assms Delete_drinks by simp
    then show ?thesis using delete_drink_raises by blast
  qed
qed

text \<open>
  The three handlers registered for a status answer with that status and the uniform
  error body; so a body that \<^verbatim>\<open>get_json\<close> refuses with 400 is answered in that form.
\<close>

lemma registered_handlers_envelope:
  "c = 400 \<or> c = 404 \<or> c = 422 \<Longrightarrow>
     status (handle_exception (HTTPException c)) = c \<and>
     is_error_envelope (handle_exception (HTTPException c))"
  by (auto simp: not_found_def unprocessable_def bad_request_def is_error_envelope_def)

lemma rejected_body_bad_request:
  assumes "requires_auth e ''post:drinks'' req = Inr jwt"
    and "body req = Rejected 400"
  shows "serve e ok Post_drinks req tbl = (bad_request, tbl)"
  using assms by (simp add: serve_def create_drink_def respond_def)

text \<open>
  Claim C6. The claim asks that every failure response of every operation has the body
  \<open>{success: false, error: <status>, message: <text>}\<close> under a status among 400, 401,
  403, 404 and 422. Two failures of the code have no such body. A \<^verbatim>\<open>POST /drinks\<close>
  with a manager's token and the empty object as body fails at \<^verbatim>\<open>data['title']\<close>:
  the \<open>KeyError\<close> has no handler, and the answer is the framework's status 500. And
  the handler for \<open>AuthError\<close> answers with the error payload it is given, unchanged:
  for a request without an Authorization header that is the checker's code and
  description under status 401, with none of the keys \<open>success\<close>, \<open>error\<close> and
  \<open>message\<close>.
\<close>

theorem failure_without_envelope:
  "serve sample_env True Post_drinks (manager_request (JObj [])) [water] =
     (Framework_default 500, [water]) \<and>
   status (Framework_default 500) = 500 \<and>
   \<not> is_error_envelope (Framework_default 500) \<and>
   handle_exception (AuthError error sc) = Response sc error \<and>
   serve sample_env True Get_drinks_detail (anonymous_request JNull) [water] =
     (Response 401 (error_payload sample_env Missing_header), [water]) \<and>
   \<not> is_error_envelope (Response 401 (error_payload sample_env Missing_header))"
proof -
  have a: "serve sample_env True Post_drinks (manager_request (JObj [])) [water] =
      (Framework_default 500, [water])"
    by (simp add: serve_def sample_manager create_drink_def respond_def)
  have b: "status (Framework_default 500) = 500 \<and> \<not> is_error_envelope (Framework_default 500)"
    by (simp add: is_error_envelope_def)
  have c: "handle_exception (AuthError error sc) = Response sc error"
    by (simp add: handle_auth_error_def)
  have r: "requires_auth sample_env ''get:drinks-detail'' (anonymous_request JNull) =
      Inl (AuthError (error_payload sample_env Missing_header) 401)"
    by (simp add: requires_auth_def checker_def get_token_auth_header_def
        anonymous_request_def)
  have d: "serve sample_env True Get_drinks_detail (anonymous_request JNull) [water] =
      (Response 401 (error_payload sample_env Missing_header), [water])"
    by (simp add: serve_def r respond_def handle_auth_error_def)
  have f: "\<not> is_error_envelope (Response 401 (error_payload sample_env Missing_header))"
    by (simp add: is_error_envelope_def error_payload_def)
  show ?thesis using a b c d f by simp
qed

subsection \<open>The two listings\<close>

text \<open>
  As claim C10 is stated it fails: \<^verbatim>\<open>GET /drinks-detail\<close> runs behind
  \<^verbatim>\<open>@requires_auth\<close>, and on a non-empty table a request without an Authorization
  header gets status 401 and no list, while \<^verbatim>\<open>GET /drinks\<close> returns its list.
\<close>

theorem listings_counterexample:
  "[water] \<noteq> [] \<and>
   fst (serve sample_env True Get_drinks (anonymous_request JNull) [water]) =
     Response 200 (JObj [(''success'', JBool True),
        (''drinks'', JArr [JObj [(''id'', JNum 1), (''title'', JStr ''Water'')]])]) \<and>
   fst (serve sample_env True Get_drinks_detail (anonymous_request JNull) [water]) =
     Response 401 (JObj [(''code'', JStr ''missing-header''),
                         (''description'', JStr ''not authorized'')])"
proof -
  have s: "fst (serve sample_env True Get_drinks (anonymous_request JNull) [water]) =
      Response 200 (JObj [(''success'', JBool True),
        (''drinks'', JArr [JObj [(''id'', JNum 1), (''title'', JStr ''Water'')]])])"
    by (simp add: serve_def respond_def get_drinks_def success_drinks_def sample_env_def
        water_def)
  have l: "fst (serve sample_env True Get_drinks_detail (anonymous_request JNull) [water]) =
      Response 401 (JObj [(''code'', JStr ''missing-header''),
                          (''description'', JStr ''not authorized'')])"
    by (simp add: serve_def sample_anonymous respond_def handle_auth_error_def)
  show ?thesis using s l by simp
qed

text \<open>
  Claim C10, amended. On a non-empty table, \<^verbatim>\<open>GET /drinks\<close> and every
  \<^verbatim>\<open>GET /drinks-detail\<close> request that passes authorization return lists of the same
  length, one entry per row in the order of the rows: entry \<open>i\<close> of the first is the
  short form and entry \<open>i\<close> of the second the long form of row \<open>i\<close>.
\<close>

theorem listings_agree:
  assumes "tbl \<noteq> []"
    and "requires_auth e ''get:drinks-detail'' req' = Inr jwt"
  shows "fst (serve e ok Get_drinks req tbl) =
           Response 200 (JObj [(''success'', JBool True),
                               (''drinks'', JArr (map (short e) tbl))]) \<and>
         fst (serve e ok' Get_drinks_detail req' tbl) =
           Response 200 (JObj [(''success'', JBool True),
                               (''drinks'', JArr (map (long e) tbl))]) \<and>
         length (map (short e) tbl) = length tbl \<and>
         length (map (long e) tbl) = length tbl \<and>
         (\<forall>i<length tbl. map (short e) tbl ! i = short e (tbl ! i) \<and>
                          map (long e) tbl ! i = long e (tbl ! i))"
  using assms
  by (simp add: serve_def get_drinks_def get_drinks_detail_def respond_def success_drinks_def)

theorem listings_agree_witness:
  "fst (serve sample_env True Get_drinks (anonymous_request JNull) [water]) =
     Response 200 (JObj [(''success'', JBool True),
        (''drinks'', JArr [JObj [(''id'', JNum 1), (''title'', JStr ''Water'')]])]) \<and>
   fst (serve sample_env True Get_drinks_detail (barista_request JNull) [water]) =
     Response 200 (JObj [(''success'', JBool True),
        (''drinks'', JArr [JObj [(''id'', JNum 1), (''title'', JStr ''Water''),
                                 (''recipe'', JStr (sample_dumps water_recipe))]])])"
proof -
  have n: "[water] \<noteq> []" by simp
  show ?thesis
    using listings_agree [OF n sample_barista_detail, of True "anonymous_request JNull" True JNull]
    by (simp add: sample_env_def water_def)
qed

end
